theory Spec2Isabelle
  imports Complex_Main "HOL-Library.Word" "HOL-Library.Log_Nat"
begin

unbundle bit_operations_syntax

section \<open>Scoring pipeline: data model\<close>

text \<open>
  The development embeds \<^verbatim>\<open>src/Scoring/pipeline.py\<close> (class \<^verbatim>\<open>Pipeline\<close>).

  \<^item> A Python \<^verbatim>\<open>dict\<close> that the code iterates (\<^verbatim>\<open>scores\<close>,
    \<^verbatim>\<open>cumulative_scores\<close>, \<^verbatim>\<open>config.FEEDBACK_MESSAGES\<close>, \<^verbatim>\<open>pipelines\<close>) is an
    association list in insertion order; a dictionary has no repeated key, so the
    lists that stand for one have distinct keys.
  \<^item> \<^verbatim>\<open>score_weights\<close> is only ever read with \<^verbatim>\<open>.get\<close>, so it is a map.
  \<^item> Scores and weights are Python floats. They are modelled by exact real numbers:
    rounding, infinities and NaN of the score arithmetic are outside the model.
  \<^item> An exception is a value of type \<open>error\<close>; a method that can raise returns
    \<open>error + result\<close>.
  \<^item> A leading underscore of a Python name is dropped (\<^verbatim>\<open>_generate_feedback\<close> is
    \<open>generate_feedback\<close>), since an Isabelle name cannot start with one.
\<close>

datatype error = KeyError string | ValueError | ZeroDivisionError

type_synonym score_dict = "(string \<times> real) list"

text \<open>One entry of \<^verbatim>\<open>config.FEEDBACK_MESSAGES\<close>: the strings under the keys
  \<^verbatim>\<open>"high"\<close> and \<^verbatim>\<open>"low"\<close>.\<close>

record feedback_messages =
  high :: string
  low :: string

text \<open>One entry of \<^verbatim>\<open>pipelines\<close>: the step names under the keys \<^verbatim>\<open>"chunk"\<close> and
  \<^verbatim>\<open>"original"\<close>.\<close>

record pipeline_steps =
  chunk_steps :: "string list"
  original_steps :: "string list"

datatype audio_type = Chunk | Original

fun steps_for :: "pipeline_steps \<Rightarrow> audio_type \<Rightarrow> string list" where
  "steps_for p Chunk = chunk_steps p"
| "steps_for p Original = original_steps p"

text \<open>The constructor's arguments that the methods read: \<^verbatim>\<open>self.sr\<close>,
  \<^verbatim>\<open>self.score_weights\<close>, \<^verbatim>\<open>self.pipelines\<close> and \<^verbatim>\<open>self.config.FEEDBACK_MESSAGES\<close>.\<close>

record settings =
  sr :: nat
  score_weights :: "string \<rightharpoonup> real"
  pipelines :: "(string \<times> pipeline_steps) list"
  FEEDBACK_MESSAGES :: "(string \<times> feedback_messages) list"

section \<open>Weighted score and feedback\<close>

text \<open>
  \<^verbatim>\<open>_calculate_weighted_score\<close> (lines 135--148): the body of the loop, then the loop
  from \<^verbatim>\<open>weighted_score = 0.0\<close>.
\<close>

definition weighted_step :: "(string \<rightharpoonup> real) \<Rightarrow> string \<times> real \<Rightarrow> real \<Rightarrow> real" where
  "weighted_step w item weighted_score =
     (case w (fst item) of
        None \<Rightarrow> weighted_score
      | Some weight \<Rightarrow> weighted_score + snd item * weight)"

definition calculate_weighted_score :: "settings \<Rightarrow> score_dict \<Rightarrow> real" where
  "calculate_weighted_score cfg scores = fold (weighted_step (score_weights cfg)) scores 0"

text \<open>
  \<^verbatim>\<open>_generate_feedback\<close> (lines 156--162): the loop over the catalog returns at the
  first name that is a key of \<^verbatim>\<open>scores\<close>; falling off the end of the loop returns
  Python's \<^verbatim>\<open>None\<close>.
\<close>

fun feedback_loop :: "(string \<times> feedback_messages) list \<Rightarrow> score_dict \<Rightarrow> string option" where
  "feedback_loop [] scores = None"
| "feedback_loop ((score_name, messages) # rest) scores =
     (case map_of scores score_name of
        Some score_value \<Rightarrow> Some (if score_value \<ge> 0.8 then high messages else low messages)
      | None \<Rightarrow> feedback_loop rest scores)"

definition generate_feedback :: "settings \<Rightarrow> score_dict \<Rightarrow> string option" where
  "generate_feedback cfg scores = feedback_loop (FEEDBACK_MESSAGES cfg) scores"

section \<open>Sample buffers\<close>

text \<open>
  An audio buffer is either raw bytes or a one-dimensional NumPy array. An array is
  modelled by its dtype and its elements as they lie in memory: a \<^verbatim>\<open>float32\<close> element
  is its IEEE 754 bit pattern, so that \<^verbatim>\<open>np.isfinite\<close>, \<^verbatim>\<open>np.nan_to_num\<close> and the
  reinterpretation of an array's memory by \<^verbatim>\<open>np.frombuffer\<close> are exact. Memory is
  little-endian. Arrays of other dtypes are not modelled.
\<close>

type_synonym byte = "8 word"

datatype ndarray =
    Int16Array "16 word list"
  | Float32Array "32 word list"
  | Float64Array "64 word list"

datatype audio = RawBytes "byte list" | NdArray ndarray

fun len :: "ndarray \<Rightarrow> nat" where
  "len (Int16Array xs) = length xs"
| "len (Float32Array xs) = length xs"
| "len (Float64Array xs) = length xs"

text \<open>The bytes a buffer exposes to \<^verbatim>\<open>np.frombuffer\<close>.\<close>

definition le_bytes :: "nat \<Rightarrow> 'a::len word \<Rightarrow> byte list" where
  "le_bytes n w = map (\<lambda>i. ucast (drop_bit (8 * i) w)) [0..<n]"

fun tobytes :: "ndarray \<Rightarrow> byte list" where
  "tobytes (Int16Array xs) = concat (map (le_bytes 2) xs)"
| "tobytes (Float32Array xs) = concat (map (le_bytes 4) xs)"
| "tobytes (Float64Array xs) = concat (map (le_bytes 8) xs)"

fun buffer_bytes :: "audio \<Rightarrow> byte list" where
  "buffer_bytes (RawBytes bs) = bs"
| "buffer_bytes (NdArray a) = tobytes a"

text \<open>
  \<^verbatim>\<open>np.frombuffer(buf, dtype=np.int16)\<close>: consecutive byte pairs, low byte first; a
  buffer of odd size raises \<^verbatim>\<open>ValueError\<close>.
\<close>

fun int16_pairs :: "byte list \<Rightarrow> 16 word list" where
  "int16_pairs (lo # hi # rest) = (push_bit 8 (ucast hi) OR ucast lo) # int16_pairs rest"
| "int16_pairs _ = []"

definition frombuffer_int16 :: "audio \<Rightarrow> error + 16 word list" where
  "frombuffer_int16 buf =
     (if even (length (buffer_bytes buf)) then Inr (int16_pairs (buffer_bytes buf))
      else Inl ValueError)"

text \<open>
  \<open>f32_of_quotient n d\<close> is the bit pattern of the \<^verbatim>\<open>float32\<close> nearest to \<open>n / d\<close> (ties
  to even), for \<open>0 < d\<close> and a quotient that is zero or in the range of the normal
  numbers. Every 16-bit integer is a \<^verbatim>\<open>float32\<close> exactly, so \<^verbatim>\<open>astype(np.float32)\<close> of
  the sample \<open>n\<close> is \<open>f32_of_quotient n 1\<close>, and the IEEE 754 division of that by 32767
  is \<open>f32_of_quotient n 32767\<close>.
\<close>

definition f32_of_quotient :: "int \<Rightarrow> int \<Rightarrow> 32 word" where
  "f32_of_quotient n d =
     (if n = 0 then 0
      else
        let a = \<bar>n\<bar>;
            e0 = bitlen a - bitlen d;
            e = (if d * 2 ^ nat e0 \<le> a * 2 ^ nat (- e0) then e0 else e0 - 1);
            num = a * 2 ^ nat (23 - e);
            den = d * 2 ^ nat (e - 23);
            q = num div den;
            r = num mod den;
            m = (if den < 2 * r \<or> (den = 2 * r \<and> odd q) then q + 1 else q);
            e' = (if m = 2 ^ 24 then e + 1 else e);
            m' = (if m = 2 ^ 24 then 2 ^ 23 else m)
        in word_of_int ((if n < 0 then 2 ^ 31 else 0) + (e' + 127) * 2 ^ 23 + (m' - 2 ^ 23)))"

text \<open>\<^verbatim>\<open>np.max\<close> of an empty array raises \<^verbatim>\<open>ValueError\<close>.\<close>

fun np_max :: "int list \<Rightarrow> error + int" where
  "np_max [] = Inl ValueError"
| "np_max (x # xs) = Inr (fold max xs x)"

text \<open>
  \<^verbatim>\<open>_convert_to_numpy_array\<close> (lines 62--75). \<^verbatim>\<open>np.iinfo(np.int16).max\<close> is 32767. The
  test \<^verbatim>\<open>np.max(np.abs(audio_array)) > 1\<close> is made on the samples' magnitudes, which the
  conversion to \<^verbatim>\<open>float32\<close> keeps exactly.
\<close>

definition convert_to_numpy_array :: "audio \<Rightarrow> bool \<Rightarrow> error + ndarray" where
  "convert_to_numpy_array audio_chunk to_float =
     (case frombuffer_int16 audio_chunk of
        Inl e \<Rightarrow> Inl e
      | Inr audio_array \<Rightarrow>
          if to_float then
            (case np_max (map (\<lambda>s. \<bar>sint s\<bar>) audio_array) of
               Inl e \<Rightarrow> Inl e
             | Inr peak \<Rightarrow>
                 if peak > 1
                 then Inr (Float32Array (map (\<lambda>s. f32_of_quotient (sint s) 32767) audio_array))
                 else Inr (Float32Array (map (\<lambda>s. f32_of_quotient (sint s) 1) audio_array)))
          else Inr (Int16Array audio_array))"

text \<open>
  \<^verbatim>\<open>np.isfinite\<close>: a float is finite unless its exponent field is all ones; every
  integer is finite.
\<close>

definition isfinite32 :: "32 word \<Rightarrow> bool" where
  "isfinite32 w = (drop_bit 23 w AND 0xFF \<noteq> 0xFF)"

definition isfinite64 :: "64 word \<Rightarrow> bool" where
  "isfinite64 w = (drop_bit 52 w AND 0x7FF \<noteq> 0x7FF)"

fun all_isfinite :: "ndarray \<Rightarrow> bool" where
  "all_isfinite (Int16Array xs) = True"
| "all_isfinite (Float32Array xs) = list_all isfinite32 xs"
| "all_isfinite (Float64Array xs) = list_all isfinite64 xs"

text \<open>
  \<^verbatim>\<open>np.nan_to_num\<close> with its default arguments: NaN (exponent all ones, fraction not
  zero) becomes 0.0, positive infinity the largest finite number of the dtype,
  negative infinity the most negative one; a finite element and an integer array are
  left as they are.
\<close>

definition nan_to_num32 :: "32 word \<Rightarrow> 32 word" where
  "nan_to_num32 w =
     (if isfinite32 w then w
      else if w AND 0x7FFFFF \<noteq> 0 then 0
      else if bit w 31 then 0xFF7FFFFF
      else 0x7F7FFFFF)"

definition nan_to_num64 :: "64 word \<Rightarrow> 64 word" where
  "nan_to_num64 w =
     (if isfinite64 w then w
      else if w AND 0xFFFFFFFFFFFFF \<noteq> 0 then 0
      else if bit w 63 then 0xFFEFFFFFFFFFFFFF
      else 0x7FEFFFFFFFFFFFFF)"

fun nan_to_num :: "ndarray \<Rightarrow> ndarray" where
  "nan_to_num (Int16Array xs) = Int16Array xs"
| "nan_to_num (Float32Array xs) = Float32Array (map nan_to_num32 xs)"
| "nan_to_num (Float64Array xs) = Float64Array (map nan_to_num64 xs)"

section \<open>The orchestrator\<close>

text \<open>
  The collaborators are not part of \<^verbatim>\<open>pipeline.py\<close>; they are parameters of the model.
  \<open>'k\<close> is the state of the \<^verbatim>\<open>KaraokeData\<close> object, which \<^verbatim>\<open>align_audio\<close> and
  \<^verbatim>\<open>get_next_segment\<close> may change; \<open>'p\<close> is whatever the preprocessor returns. The
  preprocessor and the scorer are functions of their arguments, and every collaborator
  returns (none raises).

  \<^item> \<open>align_audio chunk k\<close>: \<^verbatim>\<open>karaoke_data.align_audio(chunk, method="start")\<close>;
  \<^item> \<open>get_next_segment n k\<close>: \<^verbatim>\<open>karaoke_data.get_next_segment(n)\<close>, the pair
    \<^verbatim>\<open>(original_segment, reference_audio)\<close> and the new state;
  \<^item> \<open>get_lyrics k\<close>: \<^verbatim>\<open>karaoke_data.get_lyrics()\<close>;
  \<^item> \<open>preprocess_audio audio steps sr reference_audio\<close>:
    \<^verbatim>\<open>ap.preprocess_audio(audio, steps, sr=sr, reference_audio=reference_audio)\<close>;
  \<^item> \<open>process_audio_chunk chunk_data original_data lyrics sr\<close>:
    \<^verbatim>\<open>audio_scorer.process_audio_chunk(...)\<close>, the ScoreVector.
\<close>

record ('k, 'p) collaborators =
  align_audio :: "audio \<Rightarrow> 'k \<Rightarrow> 'k"
  get_next_segment :: "nat \<Rightarrow> 'k \<Rightarrow> (audio \<times> audio) \<times> 'k"
  get_lyrics :: "'k \<Rightarrow> string"
  preprocess_audio :: "ndarray \<Rightarrow> string list \<Rightarrow> nat \<Rightarrow> ndarray \<Rightarrow> 'p"
  process_audio_chunk :: "(string \<times> 'p) list \<Rightarrow> (string \<times> 'p) list \<Rightarrow> string \<Rightarrow> nat \<Rightarrow> score_dict"

text \<open>
  The mutable fields of a \<^verbatim>\<open>Pipeline\<close> object. \<open>calls\<close> is not a field of the class: it
  records, oldest first, every call the methods make on \<^verbatim>\<open>self.karaoke_data\<close>, so that
  statements about which calls happen can be made.
\<close>

datatype call = AlignAudio audio | GetNextSegment nat | GetLyrics

record 'k pipeline =
  karaoke_data :: 'k
  cumulative_scores :: score_dict
  chunk_count :: nat
  initialized :: bool
  calls :: "call list"

text \<open>\<^verbatim>\<open>_reset_scores\<close> (lines 44--53).\<close>

definition score_names :: "string list" where
  "score_names =
     [''linguistic_accuracy_score'', ''linguistic_similarity_score'', ''amplitude_score'',
      ''pitch_score'', ''rhythm_score'']"

definition reset_scores :: "'k pipeline \<Rightarrow> 'k pipeline" where
  "reset_scores self =
     self\<lparr>cumulative_scores :=
            [(''linguistic_accuracy_score'', 0), (''linguistic_similarity_score'', 0),
             (''amplitude_score'', 0), (''pitch_score'', 0), (''rhythm_score'', 0)],
          chunk_count := 0\<rparr>"

text \<open>
  \<^verbatim>\<open>__init__\<close> (lines 22--36), given the \<^verbatim>\<open>KaraokeData\<close> object that
  \<^verbatim>\<open>_initialize_karaoke_data\<close> constructs.
\<close>

definition init :: "'k \<Rightarrow> 'k pipeline" where
  "init k =
     (reset_scores
        \<lparr>karaoke_data = k, cumulative_scores = [], chunk_count = 0, initialized = False,
         calls = []\<rparr>)
     \<lparr>initialized := False\<rparr>"

text \<open>\<^verbatim>\<open>_preprocess_audio\<close> (lines 55--60).\<close>

definition preprocess_audio_all ::
  "('k, 'p) collaborators \<Rightarrow> settings \<Rightarrow> ndarray \<Rightarrow> audio_type \<Rightarrow> ndarray \<Rightarrow> (string \<times> 'p) list" where
  "preprocess_audio_all env cfg audio atype reference_audio =
     map (\<lambda>(score_name, pipeline).
            (score_name, preprocess_audio env audio (steps_for pipeline atype) (sr cfg) reference_audio))
         (pipelines cfg)"

text \<open>\<^verbatim>\<open>_compute_scores\<close> (lines 126--133); the call of \<^verbatim>\<open>get_lyrics\<close> is recorded.\<close>

definition compute_scores ::
  "('k, 'p) collaborators \<Rightarrow> settings \<Rightarrow> (string \<times> 'p) list \<Rightarrow> (string \<times> 'p) list \<Rightarrow>
   'k pipeline \<Rightarrow> score_dict \<times> 'k pipeline" where
  "compute_scores env cfg processed_audio_chunk_data processed_original_data self =
     (process_audio_chunk env processed_audio_chunk_data processed_original_data
        (get_lyrics env (karaoke_data self)) (sr cfg),
      self\<lparr>calls := calls self @ [GetLyrics]\<rparr>)"

text \<open>Lines 82--84 of \<^verbatim>\<open>process_and_score\<close>: the alignment on the first call.\<close>

definition align_once :: "('k, 'p) collaborators \<Rightarrow> audio \<Rightarrow> 'k pipeline \<Rightarrow> 'k pipeline" where
  "align_once env audio_chunk self =
     (if \<not> initialized self
      then self\<lparr>karaoke_data := align_audio env audio_chunk (karaoke_data self),
                calls := calls self @ [AlignAudio audio_chunk],
                initialized := True\<rparr>
      else self)"

text \<open>Lines 86--87: a chunk that is not an \<^verbatim>\<open>np.ndarray\<close> is converted.\<close>

fun normalize_chunk :: "audio \<Rightarrow> error + ndarray" where
  "normalize_chunk (NdArray a) = Inr a"
| "normalize_chunk (RawBytes bs) = convert_to_numpy_array (RawBytes bs) True"

text \<open>Lines 89--92: the check for non-finite values.\<close>

definition sanitize :: "ndarray \<Rightarrow> ndarray" where
  "sanitize audio_chunk = (if \<not> all_isfinite audio_chunk then nan_to_num audio_chunk else audio_chunk)"

text \<open>
  Lines 113--114: \<^verbatim>\<open>self.cumulative_scores[score_name] += score_value\<close> for every item
  of \<^verbatim>\<open>scores\<close>. Reading a name that is not a key raises \<^verbatim>\<open>KeyError\<close>; the sums added
  before that stay added.
\<close>

definition add_to_key :: "string \<Rightarrow> real \<Rightarrow> score_dict \<Rightarrow> score_dict" where
  "add_to_key score_name score_value d =
     map (\<lambda>(k, x). if k = score_name then (k, x + score_value) else (k, x)) d"

fun accumulate :: "score_dict \<Rightarrow> score_dict \<Rightarrow> error option \<times> score_dict" where
  "accumulate [] cumulative = (None, cumulative)"
| "accumulate ((score_name, score_value) # rest) cumulative =
     (if score_name \<in> fst ` set cumulative
      then accumulate rest (add_to_key score_name score_value cumulative)
      else (Some (KeyError score_name), cumulative))"

text \<open>
  Lines 96--119 of \<^verbatim>\<open>process_and_score\<close>, from the fetch of the reference segment on.
  The result is the triple \<^verbatim>\<open>(score, average_score, feedback)\<close>. An exception leaves
  the object as the statements before it made it.
\<close>

type_synonym score_result = "real \<times> real \<times> string option"

definition score_chunk ::
  "('k, 'p) collaborators \<Rightarrow> settings \<Rightarrow> ndarray \<Rightarrow> 'k pipeline \<Rightarrow>
   (error + score_result) \<times> 'k pipeline" where
  "score_chunk env cfg audio_chunk self =
     (let ((original_segment, reference_audio), k) =
            get_next_segment env (len audio_chunk * 2) (karaoke_data self);
          self1 = self\<lparr>karaoke_data := k,
                      calls := calls self @ [GetNextSegment (len audio_chunk * 2)]\<rparr>
      in case convert_to_numpy_array original_segment True of
           Inl e \<Rightarrow> (Inl e, self1)
         | Inr original_segment' \<Rightarrow>
        (case convert_to_numpy_array reference_audio True of
           Inl e \<Rightarrow> (Inl e, self1)
         | Inr reference_audio' \<Rightarrow>
             let processed_audio_chunk_data =
                   preprocess_audio_all env cfg audio_chunk Chunk reference_audio';
                 processed_original_data =
                   preprocess_audio_all env cfg original_segment' Original reference_audio';
                 (scores, self2) =
                   compute_scores env cfg processed_audio_chunk_data processed_original_data self1;
                 score = calculate_weighted_score cfg scores;
                 feedback = generate_feedback cfg scores
             in case accumulate scores (cumulative_scores self2) of
                  (Some e, cumulative) \<Rightarrow> (Inl e, self2\<lparr>cumulative_scores := cumulative\<rparr>)
                | (None, cumulative) \<Rightarrow>
                    let self3 = self2\<lparr>cumulative_scores := cumulative,
                                     chunk_count := chunk_count self2 + 1\<rparr>;
                        average_score =
                          calculate_weighted_score cfg (cumulative_scores self3)
                            / real (chunk_count self3)
                    in (Inr (score, average_score, feedback), self3)))"

text \<open>\<^verbatim>\<open>process_and_score\<close> (lines 77--119).\<close>

definition process_and_score ::
  "('k, 'p) collaborators \<Rightarrow> settings \<Rightarrow> audio \<Rightarrow> 'k pipeline \<Rightarrow>
   (error + score_result) \<times> 'k pipeline" where
  "process_and_score env cfg audio_chunk self =
     (let self1 = align_once env audio_chunk self
      in case normalize_chunk audio_chunk of
           Inl e \<Rightarrow> (Inl e, self1)
         | Inr audio_chunk' \<Rightarrow> score_chunk env cfg (sanitize audio_chunk') self1)"

text \<open>
  \<^verbatim>\<open>final_score\<close> (lines 121--124). Python's \<^verbatim>\<open>/\<close> raises \<^verbatim>\<open>ZeroDivisionError\<close> when the
  divisor is zero.
\<close>

definition py_div :: "real \<Rightarrow> nat \<Rightarrow> error + real" where
  "py_div x n = (if n = 0 then Inl ZeroDivisionError else Inr (x / real n))"

definition final_score ::
  "settings \<Rightarrow> 'k pipeline \<Rightarrow> (error + real \<times> string option) \<times> 'k pipeline" where
  "final_score cfg self =
     (case py_div (calculate_weighted_score cfg (cumulative_scores self)) (chunk_count self) of
        Inl e \<Rightarrow> (Inl e, self)
      | Inr average_score \<Rightarrow>
          (Inr (average_score, generate_feedback cfg (cumulative_scores self)), self))"

text \<open>
  \<^verbatim>\<open>get_average_scores\<close> (lines 150--154): the comprehension divides item by item, and
  the first division that raises ends it.
\<close>

fun average_items :: "score_dict \<Rightarrow> nat \<Rightarrow> error + score_dict" where
  "average_items [] n = Inr []"
| "average_items ((score_name, score_value) # rest) n =
     (case py_div score_value n of
        Inl e \<Rightarrow> Inl e
      | Inr average \<Rightarrow>
          (case average_items rest n of
             Inl e \<Rightarrow> Inl e
           | Inr averages \<Rightarrow> Inr ((score_name, average) # averages)))"

definition get_average_scores :: "'k pipeline \<Rightarrow> (error + score_dict) \<times> 'k pipeline" where
  "get_average_scores self = (average_items (cumulative_scores self) (chunk_count self), self)"

text \<open>
  A session: the caller's calls of \<^verbatim>\<open>process_and_score\<close> on one object, one per chunk,
  in order. A call that raises leaves the object to the next call as it is then. The
  outcomes are listed in the order of the calls.
\<close>

fun run ::
  "('k, 'p) collaborators \<Rightarrow> settings \<Rightarrow> audio list \<Rightarrow> 'k pipeline \<Rightarrow>
   (error + score_result) list \<times> 'k pipeline" where
  "run env cfg [] self = ([], self)"
| "run env cfg (audio_chunk # chunks) self =
     (let (r, self1) = process_and_score env cfg audio_chunk self;
          (rs, self2) = run env cfg chunks self1
      in (r # rs, self2))"

section \<open>Vocabulary of the properties\<close>

text \<open>
  The definitions of this section are not code of the repository: they name the
  inputs and observations that the statements below are about.
\<close>

text \<open>A recorded call that is the alignment.\<close>

fun is_align :: "call \<Rightarrow> bool" where
  "is_align (AlignAudio a) = True"
| "is_align (GetNextSegment n) = False"
| "is_align GetLyrics = False"

text \<open>
  A buffer that \<^verbatim>\<open>_convert_to_numpy_array(buf, True)\<close> accepts: an even number of
  bytes, and at least one sample. A chunk that step 2 accepts: any array, or such a
  buffer of raw bytes. Collaborators whose segment provider only returns buffers that
  the conversion accepts.
\<close>

definition convertible :: "audio \<Rightarrow> bool" where
  "convertible buf = (even (length (buffer_bytes buf)) \<and> buffer_bytes buf \<noteq> [])"

fun acceptable_chunk :: "audio \<Rightarrow> bool" where
  "acceptable_chunk (NdArray a) = True"
| "acceptable_chunk (RawBytes bs) = convertible (RawBytes bs)"

definition segments_convertible :: "('k, 'p) collaborators \<Rightarrow> bool" where
  "segments_convertible env =
     (\<forall>n k. convertible (fst (fst (get_next_segment env n k)))
          \<and> convertible (snd (fst (get_next_segment env n k))))"



text \<open>
  Collaborators for the examples: a segment provider that returns the same pair of
  buffers at every fetch and adds up the lengths asked for, a preprocessor that
  returns the audio it is given, and a scorer that returns the same ScoreVector for
  every chunk.
\<close>

definition stub_collaborators :: "audio \<times> audio \<Rightarrow> score_dict \<Rightarrow> (nat, ndarray) collaborators" where
  "stub_collaborators segment S =
     \<lparr>align_audio = (\<lambda>audio_chunk k. k),
      get_next_segment = (\<lambda>n k. (segment, k + n)),
      get_lyrics = (\<lambda>k. ''la la''),
      preprocess_audio = (\<lambda>audio steps rate reference_audio. audio),
      process_audio_chunk = (\<lambda>chunk_data original_data lyrics rate. S)\<rparr>"

definition example_settings :: settings where
  "example_settings =
     \<lparr>sr = 16000,
      score_weights = [''pitch_score'' \<mapsto> 1],
      pipelines = [(''pitch_score'', \<lparr>chunk_steps = [''normalize''], original_steps = []\<rparr>)],
      FEEDBACK_MESSAGES =
        [(''amplitude_score'', \<lparr>high = ''Good volume'', low = ''Sing louder''\<rparr>),
         (''pitch_score'', \<lparr>high = ''Great pitch'', low = ''Watch your pitch''\<rparr>)]\<rparr>"

definition example_segment :: "audio \<times> audio" where
  "example_segment = (RawBytes [0x10, 0x00, 0xF0, 0xFF], RawBytes [0x00, 0x40])"

section \<open>The weighted score\<close>

lemma fold_weighted_step:
  "fold (weighted_step w) scores acc =
     acc + (\<Sum>(name, v) \<leftarrow> filter (\<lambda>(name, v). name \<in> dom w) scores. v * the (w name))"
  by (induction scores arbitrary: acc) (auto simp: weighted_step_def split: option.splits)



text \<open>
  Claim C1. The composite score is the sum, over the entries of the ScoreVector whose
  name has a weight, of value times weight; an entry whose name has no weight is
  skipped. With the weights \<open>{a: 0.5}\<close> the ScoreVector \<open>{a: 1.0, b: x}\<close> has the
  composite 0.5, whatever \<open>x\<close> is.
\<close>

theorem calculate_weighted_score_sum:
  "calculate_weighted_score cfg scores =
     (\<Sum>(name, v) \<leftarrow> filter (\<lambda>(name, v). name \<in> dom (score_weights cfg)) scores.
        v * the (score_weights cfg name))
   \<and> calculate_weighted_score (cfg\<lparr>score_weights := [''a'' \<mapsto> 0.5]\<rparr>) [(''a'', 1), (''b'', x)] = 0.5"
proof
  show "calculate_weighted_score cfg scores =
     (\<Sum>(name, v) \<leftarrow> filter (\<lambda>(name, v). name \<in> dom (score_weights cfg)) scores.
        v * the (score_weights cfg name))"
    by (simp add: calculate_weighted_score_def fold_weighted_step)
  show "calculate_weighted_score (cfg\<lparr>score_weights := [''a'' \<mapsto> 0.5]\<rparr>) [(''a'', 1), (''b'', x)] = 0.5"
    by (simp add: calculate_weighted_score_def weighted_step_def)
qed

theorem calculate_weighted_score_sum_witness:
  "calculate_weighted_score
     \<lparr>sr = 16000, score_weights = [''pitch_score'' \<mapsto> 2, ''rhythm_score'' \<mapsto> 3], pipelines = [],
      FEEDBACK_MESSAGES = []\<rparr>
     [(''pitch_score'', 0.5), (''tempo_score'', 7), (''rhythm_score'', 0.25)] = 1.75"
  using calculate_weighted_score_sum
    [of "\<lparr>sr = 16000, score_weights = [''pitch_score'' \<mapsto> 2, ''rhythm_score'' \<mapsto> 3], pipelines = [],
          FEEDBACK_MESSAGES = []\<rparr>"
        "[(''pitch_score'', 0.5), (''tempo_score'', 7), (''rhythm_score'', 0.25)]"]
  by simp

section \<open>Feedback selection\<close>

lemma feedback_loop_no_match:
  "\<forall>n \<in> fst ` set catalog. n \<notin> fst ` set scores \<Longrightarrow> feedback_loop catalog scores = None"
proof (induction catalog)
  case Nil
  show ?case by simp
next
  case (Cons entry catalog)
  obtain n m where entry: "entry = (n, m)" by (cases entry)
  from Cons.prems entry have "map_of scores n = None"
    by (simp add: map_of_eq_None_iff)
  with Cons entry show ?case by simp
qed

lemma feedback_loop_skip:
  "\<forall>n \<in> fst ` set pre. n \<notin> fst ` set scores \<Longrightarrow>
   feedback_loop (pre @ rest) scores = feedback_loop rest scores"
proof (induction pre)
  case Nil
  show ?case by simp
next
  case (Cons entry pre)
  obtain n m where entry: "entry = (n, m)" by (cases entry)
  from Cons.prems entry have "map_of scores n = None"
    by (simp add: map_of_eq_None_iff)
  with Cons entry show ?case by simp
qed

text \<open>
  Claim C3. When the catalog is \<open>pre @ (name, messages) # rest\<close>, no name of \<open>pre\<close> is a
  key of the ScoreVector and \<open>name\<close> is one, with value \<open>v\<close>, the feedback is the
  \<open>high\<close> message of \<open>name\<close> when \<open>v \<ge> 0.8\<close> and its \<open>low\<close> message otherwise, whatever
  \<open>rest\<close> holds; at exactly 0.8 it is the \<open>high\<close> message. When no name of the catalog
  is a key of the ScoreVector (an empty catalog included) the result is \<open>None\<close>.
\<close>

theorem generate_feedback_first_match:
  "(FEEDBACK_MESSAGES cfg = pre @ (name, messages) # rest
      \<and> (\<forall>n \<in> fst ` set pre. n \<notin> fst ` set scores)
      \<and> distinct (map fst scores) \<and> (name, v) \<in> set scores
    \<longrightarrow> generate_feedback cfg scores = Some (if v \<ge> 0.8 then high messages else low messages)
      \<and> (v = 0.8 \<longrightarrow> generate_feedback cfg scores = Some (high messages)))
   \<and> ((\<forall>n \<in> fst ` set (FEEDBACK_MESSAGES cfg). n \<notin> fst ` set scores)
    \<longrightarrow> generate_feedback cfg scores = None)"
  by (auto simp: generate_feedback_def feedback_loop_skip feedback_loop_no_match)

theorem generate_feedback_first_match_witness:
  "generate_feedback
     \<lparr>sr = 16000, score_weights = Map.empty, pipelines = [],
      FEEDBACK_MESSAGES =
        [(''amplitude_score'', \<lparr>high = ''loud'', low = ''quiet''\<rparr>),
         (''pitch_score'', \<lparr>high = ''in tune'', low = ''off key''\<rparr>),
         (''rhythm_score'', \<lparr>high = ''on time'', low = ''late''\<rparr>)]\<rparr>
     [(''rhythm_score'', 0.1), (''pitch_score'', 0.8)] = Some ''in tune''
   \<and> generate_feedback
     \<lparr>sr = 16000, score_weights = Map.empty, pipelines = [],
      FEEDBACK_MESSAGES = [(''amplitude_score'', \<lparr>high = ''loud'', low = ''quiet''\<rparr>)]\<rparr>
     [(''rhythm_score'', 0.1), (''pitch_score'', 0.8)] = None"
  using generate_feedback_first_match
    [of "\<lparr>sr = 16000, score_weights = Map.empty, pipelines = [],
          FEEDBACK_MESSAGES =
            [(''amplitude_score'', \<lparr>high = ''loud'', low = ''quiet''\<rparr>),
             (''pitch_score'', \<lparr>high = ''in tune'', low = ''off key''\<rparr>),
             (''rhythm_score'', \<lparr>high = ''on time'', low = ''late''\<rparr>)]\<rparr>"
        "[(''amplitude_score'', \<lparr>high = ''loud'', low = ''quiet''\<rparr>)]"
        "''pitch_score''" "\<lparr>high = ''in tune'', low = ''off key''\<rparr>"
        "[(''rhythm_score'', \<lparr>high = ''on time'', low = ''late''\<rparr>)]"
        "[(''rhythm_score'', 0.1), (''pitch_score'', 0.8)]" "0.8"]
    generate_feedback_first_match
    [of "\<lparr>sr = 16000, score_weights = Map.empty, pipelines = [],
          FEEDBACK_MESSAGES = [(''amplitude_score'', \<lparr>high = ''loud'', low = ''quiet''\<rparr>)]\<rparr>"
        "[]" "''x''" "\<lparr>high = ''h'', low = ''l''\<rparr>" "[]"
        "[(''rhythm_score'', 0.1), (''pitch_score'', 0.8)]" "0"]
  by simp

section \<open>Conversion of sample buffers\<close>

lemma int16_pairs_Nil: "int16_pairs bs = [] \<longleftrightarrow> length bs < 2"
  by (induction bs rule: int16_pairs.induct) auto

lemma fold_max_gt: "(b::int) < fold max xs x \<longleftrightarrow> b < x \<or> (\<exists>y \<in> set xs. b < y)"
  by (induction xs arbitrary: x) auto

lemma np_max_gt:
  "xs \<noteq> [] \<Longrightarrow> \<exists>peak. np_max xs = Inr peak \<and> (b < peak \<longleftrightarrow> (\<exists>y \<in> set xs. b < y))"
  by (cases xs) (auto simp: fold_max_gt)

lemma convert_to_numpy_array_float:
  "convert_to_numpy_array buf True =
     (if odd (length (buffer_bytes buf)) \<or> length (buffer_bytes buf) < 2 then Inl ValueError
      else Inr (Float32Array
             (map (\<lambda>s. f32_of_quotient (sint s)
                         (if \<exists>x \<in> set (int16_pairs (buffer_bytes buf)). 1 < \<bar>sint x\<bar> then 32767 else 1))
                  (int16_pairs (buffer_bytes buf)))))"
proof (cases "odd (length (buffer_bytes buf))")
  case True
  then show ?thesis by (simp add: convert_to_numpy_array_def frombuffer_int16_def)
next
  case even: False
  show ?thesis
  proof (cases "length (buffer_bytes buf) < 2")
    case True
    then have "int16_pairs (buffer_bytes buf) = []" by (simp add: int16_pairs_Nil)
    then show ?thesis using even True by (simp add: convert_to_numpy_array_def frombuffer_int16_def)
  next
    case False
    let ?xs = "int16_pairs (buffer_bytes buf)"
    from False have "map (\<lambda>s. \<bar>sint s\<bar>) ?xs \<noteq> []" by (simp add: int16_pairs_Nil)
    then obtain peak where peak: "np_max (map (\<lambda>s. \<bar>sint s\<bar>) ?xs) = Inr peak"
      and gt: "1 < peak \<longleftrightarrow> (\<exists>y \<in> set (map (\<lambda>s. \<bar>sint s\<bar>) ?xs). 1 < y)"
      using np_max_gt by blast
    from gt have "1 < peak \<longleftrightarrow> (\<exists>x \<in> set ?xs. 1 < \<bar>sint x\<bar>)" by auto
    then show ?thesis
      using even False peak by (simp add: convert_to_numpy_array_def frombuffer_int16_def)
  qed
qed

lemma convertible_converts:
  "convertible buf \<Longrightarrow> \<not> isl (convert_to_numpy_array buf True)"
  by (cases "buffer_bytes buf"; cases "tl (buffer_bytes buf)")
     (auto simp: convertible_def convert_to_numpy_array_float)

lemma acceptable_chunk_normalizes:
  "acceptable_chunk c \<Longrightarrow> \<not> isl (normalize_chunk c)"
  by (cases c) (simp_all add: convertible_converts)


section \<open>Non-finite samples\<close>

lemma exponent_quotient32: "(q::nat) mod 256 = 255 \<Longrightarrow> q < 512 \<Longrightarrow> q = 255 \<or> q = 511"
proof -
  assume a: "q mod 256 = 255" "q < 512"
  have "q = 256 * (q div 256) + q mod 256" by simp
  moreover from a(2) have "q div 256 < 2" by simp
  then have "q div 256 = 0 \<or> q div 256 = 1" by linarith
  ultimately show ?thesis using a(1) by auto
qed

lemma inf_pattern32:
  fixes x :: nat
  assumes "x mod 8388608 = 0" "x div 8388608 mod 256 = 255" "x < 4294967296"
  shows "x = 2139095040 \<or> x = 4286578688"
proof -
  from assms(1) obtain q where q: "x = 8388608 * q" by (auto simp: mod_eq_0_iff_dvd)
  then have "x div 8388608 = q" by simp
  with assms(2) have "q mod 256 = 255" by simp
  moreover from q assms(3) have "q < 512" by simp
  ultimately have "q = 255 \<or> q = 511" by (rule exponent_quotient32)
  with q show ?thesis by auto
qed

lemma and_mask23: "(w :: 32 word) AND 0x7FFFFF = take_bit 23 w"
proof -
  have "(0x7FFFFF :: 32 word) = mask 23" by (simp add: mask_eq_exp_minus_1)
  then show ?thesis by (simp add: take_bit_eq_mask)
qed

lemma and_mask8: "(w :: 32 word) AND 0xFF = take_bit 8 w"
proof -
  have "(0xFF :: 32 word) = mask 8" by (simp add: mask_eq_exp_minus_1)
  then show ?thesis by (simp add: take_bit_eq_mask)
qed

lemma inf32:
  fixes w :: "32 word"
  assumes "drop_bit 23 w AND 0xFF = 0xFF" and "w AND 0x7FFFFF = 0"
  shows "w = (if bit w 31 then 0xFF800000 else 0x7F800000)"
proof -
  define x where "x = unat w"
  have "unat (take_bit 8 (drop_bit 23 w)) = take_bit 8 (drop_bit 23 (unat w))"
    by (simp only: unsigned_take_bit_eq unat_drop_bit_eq)
  moreover have "unat (take_bit 8 (drop_bit 23 w)) = unat (0xFF :: 32 word)"
    using assms(1) by (simp only: and_mask8)
  ultimately have e: "x div 8388608 mod 256 = 255"
    by (simp add: take_bit_eq_mod drop_bit_eq_div x_def)
  have "unat (take_bit 23 w) = take_bit 23 (unat w)"
    by (simp only: unsigned_take_bit_eq)
  moreover have "unat (take_bit 23 w) = unat (0 :: 32 word)"
    using assms(2) by (simp only: and_mask23)
  ultimately have f: "x mod 8388608 = 0"
    by (simp add: take_bit_eq_mod x_def)
  have lt: "x < 4294967296"
    using unsigned_less [of w, where ?'a = nat] by (simp add: x_def)
  have "bit w 31 \<longleftrightarrow> bit (unat w) 31"
    by (simp add: bit_unsigned_iff)
  then have b: "bit w 31 \<longleftrightarrow> odd (x div 2147483648)"
    by (simp add: bit_iff_odd x_def)
  from f e lt have "x = 2139095040 \<or> x = 4286578688" by (rule inf_pattern32)
  then have "x = (if bit w 31 then 4286578688 else 2139095040)"
    unfolding b by auto
  then have "unat w = unat (if bit w 31 then 0xFF800000 else 0x7F800000 :: 32 word)"
    by (simp add: x_def)
  then show ?thesis by (simp only: word_unat_eq_iff)
qed

lemma exponent_quotient64: "(q::nat) mod 2048 = 2047 \<Longrightarrow> q < 4096 \<Longrightarrow> q = 2047 \<or> q = 4095"
proof -
  assume a: "q mod 2048 = 2047" "q < 4096"
  have "q = 2048 * (q div 2048) + q mod 2048" by simp
  moreover from a(2) have "q div 2048 < 2" by simp
  then have "q div 2048 = 0 \<or> q div 2048 = 1" by linarith
  ultimately show ?thesis using a(1) by auto
qed

lemma inf_pattern64:
  fixes x :: nat
  assumes "x mod 4503599627370496 = 0" "x div 4503599627370496 mod 2048 = 2047"
    "x < 18446744073709551616"
  shows "x = 9218868437227405312 \<or> x = 18442240474082181120"
proof -
  from assms(1) obtain q where q: "x = 4503599627370496 * q" by (auto simp: mod_eq_0_iff_dvd)
  then have "x div 4503599627370496 = q" by simp
  with assms(2) have "q mod 2048 = 2047" by simp
  moreover from q assms(3) have "q < 4096" by simp
  ultimately have "q = 2047 \<or> q = 4095" by (rule exponent_quotient64)
  with q show ?thesis by auto
qed

lemma and_mask52: "(w :: 64 word) AND 0xFFFFFFFFFFFFF = take_bit 52 w"
proof -
  have "(0xFFFFFFFFFFFFF :: 64 word) = mask 52" by (simp add: mask_eq_exp_minus_1)
  then show ?thesis by (simp add: take_bit_eq_mask)
qed

lemma and_mask11: "(w :: 64 word) AND 0x7FF = take_bit 11 w"
proof -
  have "(0x7FF :: 64 word) = mask 11" by (simp add: mask_eq_exp_minus_1)
  then show ?thesis by (simp add: take_bit_eq_mask)
qed

lemma inf64:
  fixes w :: "64 word"
  assumes "drop_bit 52 w AND 0x7FF = 0x7FF" and "w AND 0xFFFFFFFFFFFFF = 0"
  shows "w = (if bit w 63 then 0xFFF0000000000000 else 0x7FF0000000000000)"
proof -
  define x where "x = unat w"
  have "unat (take_bit 11 (drop_bit 52 w)) = take_bit 11 (drop_bit 52 (unat w))"
    by (simp only: unsigned_take_bit_eq unat_drop_bit_eq)
  moreover have "unat (take_bit 11 (drop_bit 52 w)) = unat (0x7FF :: 64 word)"
    using assms(1) by (simp only: and_mask11)
  ultimately have e: "x div 4503599627370496 mod 2048 = 2047"
    by (simp add: take_bit_eq_mod drop_bit_eq_div x_def)
  have "unat (take_bit 52 w) = take_bit 52 (unat w)"
    by (simp only: unsigned_take_bit_eq)
  moreover have "unat (take_bit 52 w) = unat (0 :: 64 word)"
    using assms(2) by (simp only: and_mask52)
  ultimately have f: "x mod 4503599627370496 = 0"
    by (simp add: take_bit_eq_mod x_def)
  have lt: "x < 18446744073709551616"
    using unsigned_less [of w, where ?'a = nat] by (simp add: x_def)
  have "bit w 63 \<longleftrightarrow> bit (unat w) 63"
    by (simp add: bit_unsigned_iff)
  then have b: "bit w 63 \<longleftrightarrow> odd (x div 9223372036854775808)"
    by (simp add: bit_iff_odd x_def)
  from f e lt have "x = 9218868437227405312 \<or> x = 18442240474082181120" by (rule inf_pattern64)
  then have "x = (if bit w 63 then 18442240474082181120 else 9218868437227405312)"
    unfolding b by auto
  then have "unat w = unat (if bit w 63 then 0xFFF0000000000000 else 0x7FF0000000000000 :: 64 word)"
    by (simp add: x_def)
  then show ?thesis by (simp only: word_unat_eq_iff)
qed

lemma nan_to_num32_cases:
  "nan_to_num32 w =
     (if w = 0x7F800000 then 0x7F7FFFFF
      else if w = 0xFF800000 then 0xFF7FFFFF
      else if isfinite32 w then w
      else 0)"
proof (cases "isfinite32 w")
  case True
  then have "w \<noteq> 0x7F800000" "w \<noteq> 0xFF800000" by (auto simp: isfinite32_def)
  with True show ?thesis by (simp add: nan_to_num32_def)
next
  case nf: False
  show ?thesis
  proof (cases "w AND 0x7FFFFF = 0")
    case True
    with nf have "w = (if bit w 31 then 0xFF800000 else 0x7F800000)"
      by (simp add: isfinite32_def inf32)
    then have "bit w 31 \<and> w = 0xFF800000 \<or> \<not> bit w 31 \<and> w = 0x7F800000"
      by (cases "bit w 31") simp_all
    with nf True show ?thesis by (auto simp: nan_to_num32_def)
  next
    case False
    then have "w \<noteq> 0x7F800000" "w \<noteq> 0xFF800000" by auto
    with nf False show ?thesis by (simp add: nan_to_num32_def)
  qed
qed

lemma nan_to_num64_cases:
  "nan_to_num64 w =
     (if w = 0x7FF0000000000000 then 0x7FEFFFFFFFFFFFFF
      else if w = 0xFFF0000000000000 then 0xFFEFFFFFFFFFFFFF
      else if isfinite64 w then w
      else 0)"
proof (cases "isfinite64 w")
  case True
  then have "w \<noteq> 0x7FF0000000000000" "w \<noteq> 0xFFF0000000000000" by (auto simp: isfinite64_def)
  with True show ?thesis by (simp add: nan_to_num64_def)
next
  case nf: False
  show ?thesis
  proof (cases "w AND 0xFFFFFFFFFFFFF = 0")
    case True
    with nf have "w = (if bit w 63 then 0xFFF0000000000000 else 0x7FF0000000000000)"
      by (simp add: isfinite64_def inf64)
    then have "bit w 63 \<and> w = 0xFFF0000000000000 \<or> \<not> bit w 63 \<and> w = 0x7FF0000000000000"
      by (cases "bit w 63") simp_all
    with nf True show ?thesis by (auto simp: nan_to_num64_def)
  next
    case False
    then have "w \<noteq> 0x7FF0000000000000" "w \<noteq> 0xFFF0000000000000" by auto
    with nf False show ?thesis by (simp add: nan_to_num64_def)
  qed
qed

lemma isfinite32_nan_to_num32: "isfinite32 (nan_to_num32 w)"
  by (simp add: nan_to_num32_def) (simp add: isfinite32_def)

lemma isfinite64_nan_to_num64: "isfinite64 (nan_to_num64 w)"
  by (simp add: nan_to_num64_def) (simp add: isfinite64_def)

lemma all_isfinite_nan_to_num: "all_isfinite (nan_to_num a)"
  by (cases a) (simp_all add: list_all_iff isfinite32_nan_to_num32 isfinite64_nan_to_num64)

lemma all_isfinite_sanitize: "all_isfinite (sanitize a)"
  by (simp add: sanitize_def all_isfinite_nan_to_num)

lemma sanitize_idem: "sanitize (sanitize a) = sanitize a"
  using all_isfinite_sanitize [of a] by (simp add: sanitize_def)

lemma len_sanitize: "len (sanitize a) = len a"
  by (cases a) (simp_all add: sanitize_def)

section \<open>Accumulation\<close>

lemma add_to_key_keys: "map fst (add_to_key n v d) = map fst d"
  by (induction d) (auto simp: add_to_key_def)

lemma add_to_key_key_set: "fst ` set (add_to_key n v d) = fst ` set d"
  using add_to_key_keys [of n v d] by (metis list.set_map)


lemma accumulate_keys: "map fst (snd (accumulate scores d)) = map fst d"
proof (induction scores arbitrary: d)
  case Nil
  show ?case by simp
next
  case (Cons item scores)
  obtain n v where item: "item = (n, v)" by (cases item)
  show ?case using Cons.IH [of "add_to_key n v d"]
    by (simp add: item add_to_key_keys)
qed


lemma accumulate_foreign:
  "\<not> fst ` set scores \<subseteq> fst ` set d \<Longrightarrow>
   fst (accumulate scores d) = Some (KeyError (hd (filter (\<lambda>n. n \<notin> fst ` set d) (map fst scores))))"
proof (induction scores arbitrary: d)
  case Nil
  then show ?case by simp
next
  case (Cons item scores)
  obtain n v where item: "item = (n, v)" by (cases item)
  show ?case
  proof (cases "n \<in> fst ` set d")
    case True
    with Cons.prems item have "\<not> fst ` set scores \<subseteq> fst ` set (add_to_key n v d)"
      by (auto simp: add_to_key_key_set)
    then show ?thesis
      using Cons.IH [of "add_to_key n v d"] True item by (simp add: add_to_key_key_set)
  next
    case False
    then show ?thesis using item by simp
  qed
qed



section \<open>One call of the orchestrator\<close>

lemma init_simps:
  "cumulative_scores (init k) = map (\<lambda>n. (n, 0)) score_names"
  "chunk_count (init k) = 0"
  "\<not> initialized (init k)"
  "calls (init k) = []"
  by (simp_all add: init_def reset_scores_def score_names_def)


lemma align_once_simps:
  "cumulative_scores (align_once env c st) = cumulative_scores st"
  "chunk_count (align_once env c st) = chunk_count st"
  "initialized (align_once env c st)"
  "filter is_align (calls (align_once env c st)) =
     (if initialized st then filter is_align (calls st)
      else filter is_align (calls st) @ [AlignAudio c])"
  by (simp_all add: align_once_def)

lemma align_once_idem: "align_once env c' (align_once env c st) = align_once env c st"
  by (simp add: align_once_def)

lemma score_chunk_keys:
  "map fst (cumulative_scores (snd (score_chunk env cfg a st))) = map fst (cumulative_scores st)"
  using accumulate_keys
  apply (simp add: score_chunk_def compute_scores_def Let_def split: prod.splits sum.splits option.splits)
  apply (metis snd_conv)
  done


lemma score_chunk_count:
  "chunk_count (snd (score_chunk env cfg a st)) =
     (if isl (fst (score_chunk env cfg a st)) then chunk_count st else chunk_count st + 1)"
  by (simp add: score_chunk_def compute_scores_def Let_def split: prod.splits sum.splits option.splits)



lemma score_chunk_returns:
  assumes "convertible (fst (fst (get_next_segment env (len a * 2) (karaoke_data st))))"
    and "convertible (snd (fst (get_next_segment env (len a * 2) (karaoke_data st))))"
    and "\<forall>x y l r. process_audio_chunk env x y l r = S"
  shows "fst (score_chunk env cfg a st) =
     (case fst (accumulate S (cumulative_scores st)) of
        Some e \<Rightarrow> Inl e
      | None \<Rightarrow>
          Inr (calculate_weighted_score cfg S,
               calculate_weighted_score cfg (snd (accumulate S (cumulative_scores st)))
                 / real (chunk_count st + 1),
               generate_feedback cfg S))"
    and "cumulative_scores (snd (score_chunk env cfg a st)) = snd (accumulate S (cumulative_scores st))"
    and "last (calls (snd (score_chunk env cfg a st))) = GetLyrics"
  using assms convertible_converts [OF assms(1)] convertible_converts [OF assms(2)]
  by (auto simp: score_chunk_def compute_scores_def Let_def split: prod.splits sum.splits option.splits)

lemma process_and_score_keys:
  "map fst (cumulative_scores (snd (process_and_score env cfg c st))) = map fst (cumulative_scores st)"
  by (simp add: process_and_score_def Let_def score_chunk_keys align_once_simps split: sum.splits)


lemma process_and_score_count:
  "chunk_count (snd (process_and_score env cfg c st)) =
     (if isl (fst (process_and_score env cfg c st)) then chunk_count st else chunk_count st + 1)"
  by (simp add: process_and_score_def Let_def score_chunk_count align_once_simps split: sum.splits)



lemma process_and_score_returns:
  assumes "acceptable_chunk c" and "segments_convertible env"
    and "\<forall>x y l r. process_audio_chunk env x y l r = S"
  shows "fst (process_and_score env cfg c st) =
     (case fst (accumulate S (cumulative_scores st)) of
        Some e \<Rightarrow> Inl e
      | None \<Rightarrow>
          Inr (calculate_weighted_score cfg S,
               calculate_weighted_score cfg (snd (accumulate S (cumulative_scores st)))
                 / real (chunk_count st + 1),
               generate_feedback cfg S))"
    and "cumulative_scores (snd (process_and_score env cfg c st)) =
           snd (accumulate S (cumulative_scores st))"
    and "last (calls (snd (process_and_score env cfg c st))) = GetLyrics"
proof -
  from assms(1) obtain a where a: "normalize_chunk c = Inr a"
    using acceptable_chunk_normalizes [of c] by (cases "normalize_chunk c") auto
  let ?st = "align_once env c st"
  have seg: "convertible (fst (fst (get_next_segment env (len (sanitize a) * 2) (karaoke_data ?st))))"
    "convertible (snd (fst (get_next_segment env (len (sanitize a) * 2) (karaoke_data ?st))))"
    using assms(2) by (simp_all add: segments_convertible_def)
  have p: "process_and_score env cfg c st = score_chunk env cfg (sanitize a) ?st"
    by (simp add: process_and_score_def a)
  show "fst (process_and_score env cfg c st) =
     (case fst (accumulate S (cumulative_scores st)) of
        Some e \<Rightarrow> Inl e
      | None \<Rightarrow>
          Inr (calculate_weighted_score cfg S,
               calculate_weighted_score cfg (snd (accumulate S (cumulative_scores st)))
                 / real (chunk_count st + 1),
               generate_feedback cfg S))"
    using score_chunk_returns(1) [OF seg assms(3), of cfg]
    by (simp add: p align_once_simps split: option.splits)
  show "cumulative_scores (snd (process_and_score env cfg c st)) =
           snd (accumulate S (cumulative_scores st))"
    using score_chunk_returns(2) [OF seg assms(3), of cfg] by (simp add: p align_once_simps)
  show "last (calls (snd (process_and_score env cfg c st))) = GetLyrics"
    using score_chunk_returns(3) [OF seg assms(3), of cfg] by (simp add: p)
qed






lemma stub_scores:
  "\<forall>x y l r. process_audio_chunk (stub_collaborators segment S) x y l r = S"
  by (simp add: stub_collaborators_def)

lemma stub_segments_convertible: "segments_convertible (stub_collaborators example_segment S)"
  by (simp add: segments_convertible_def stub_collaborators_def example_segment_def convertible_def)

section \<open>Sessions\<close>

lemma run_keys:
  "map fst (cumulative_scores (snd (run env cfg chunks st))) = map fst (cumulative_scores st)"
proof (induction chunks arbitrary: st)
  case Nil
  show ?case by simp
next
  case (Cons c chunks)
  show ?case
    using Cons.IH [of "snd (process_and_score env cfg c st)"] process_and_score_keys [of env cfg c st]
    by (simp add: split_beta Let_def)
qed

lemma run_init_keys: "map fst (cumulative_scores (snd (run env cfg chunks (init k)))) = score_names"
  by (simp add: run_keys init_simps comp_def)

lemma run_count:
  "chunk_count (snd (run env cfg chunks st)) =
     chunk_count st + length (filter (\<lambda>r. \<not> isl r) (fst (run env cfg chunks st)))"
proof (induction chunks arbitrary: st)
  case Nil
  show ?case by simp
next
  case (Cons c chunks)
  show ?case
    using Cons.IH [of "snd (process_and_score env cfg c st)"] process_and_score_count [of env cfg c st]
    by (simp add: split_beta Let_def)
qed




lemma average_items_ok:
  "0 < n \<Longrightarrow> average_items d n = Inr (map (\<lambda>(name, total). (name, total / real n)) d)"
  by (induction d) (auto simp: py_div_def)

lemma average_items_zero:
  "d \<noteq> [] \<Longrightarrow> average_items d 0 = Inl ZeroDivisionError"
  by (cases d) (auto simp: py_div_def)

section \<open>The claims about the orchestrator\<close>




text \<open>
  Claim C4, as amended. For an array chunk with a non-finite element, the check of
  lines 89--92 replaces the array by \<^verbatim>\<open>np.nan_to_num\<close> of it: every element of the
  result is finite and the length is kept; NaN becomes 0.0, positive infinity the
  largest finite number of the dtype, negative infinity the most negative one, and a
  finite element stays. The call then goes on as a call on the replaced array does
  (the alignment, when it is due, is made on the chunk as given).
\<close>

theorem non_finite_chunk_sanitized:
  "\<not> all_isfinite a \<Longrightarrow>
     sanitize a = nan_to_num a
     \<and> all_isfinite (nan_to_num a)
     \<and> len (nan_to_num a) = len a
     \<and> process_and_score env cfg (NdArray a) st =
         process_and_score env cfg (NdArray (nan_to_num a)) (align_once env (NdArray a) st)
     \<and> nan_to_num (Float32Array xs) =
         Float32Array
           (map (\<lambda>w. if w = 0x7F800000 then 0x7F7FFFFF
                      else if w = 0xFF800000 then 0xFF7FFFFF
                      else if isfinite32 w then w
                      else 0) xs)
     \<and> nan_to_num (Float64Array ys) =
         Float64Array
           (map (\<lambda>w. if w = 0x7FF0000000000000 then 0x7FEFFFFFFFFFFFFF
                      else if w = 0xFFF0000000000000 then 0xFFEFFFFFFFFFFFFF
                      else if isfinite64 w then w
                      else 0) ys)"
proof (intro conjI)
  assume nf: "\<not> all_isfinite a"
  then show s: "sanitize a = nan_to_num a" by (simp add: sanitize_def)
  show "all_isfinite (nan_to_num a)" by (rule all_isfinite_nan_to_num)
  show "len (nan_to_num a) = len a" using len_sanitize [of a] s by simp
  have "sanitize (nan_to_num a) = nan_to_num a"
    using sanitize_idem [of a] s by simp
  then show "process_and_score env cfg (NdArray a) st =
      process_and_score env cfg (NdArray (nan_to_num a)) (align_once env (NdArray a) st)"
    by (simp add: process_and_score_def s align_once_idem)
  show "nan_to_num (Float32Array xs) =
         Float32Array
           (map (\<lambda>w. if w = 0x7F800000 then 0x7F7FFFFF
                      else if w = 0xFF800000 then 0xFF7FFFFF
                      else if isfinite32 w then w
                      else 0) xs)"
    by (simp add: nan_to_num32_cases)
  show "nan_to_num (Float64Array ys) =
         Float64Array
           (map (\<lambda>w. if w = 0x7FF0000000000000 then 0x7FEFFFFFFFFFFFFF
                      else if w = 0xFFF0000000000000 then 0xFFEFFFFFFFFFFFFF
                      else if isfinite64 w then w
                      else 0) ys)"
    by (simp add: nan_to_num64_cases)
qed

theorem non_finite_chunk_sanitized_witness:
  "\<not> all_isfinite (Float32Array [0x7FC00000, 0x3F000000, 0xFF800000])
   \<and> sanitize (Float32Array [0x7FC00000, 0x3F000000, 0xFF800000]) =
       Float32Array [0, 0x3F000000, 0xFF7FFFFF]
   \<and> fst (process_and_score (stub_collaborators example_segment [(''pitch_score'', 0.9)])
            example_settings (NdArray (Float32Array [0x7FC00000, 0x3F000000, 0xFF800000])) (init 0)) =
       Inr (0.9, 0.9, Some ''Great pitch'')"
proof -
  let ?a = "Float32Array [0x7FC00000, 0x3F000000, 0xFF800000]"
  let ?env = "stub_collaborators example_segment [(''pitch_score'', 0.9)]"
  have nf: "\<not> all_isfinite ?a" by code_simp
  have clean: "nan_to_num ?a = Float32Array [0, 0x3F000000, 0xFF7FFFFF]" by code_simp
  have r: "fst (process_and_score ?env example_settings
      (NdArray (Float32Array [0, 0x3F000000, 0xFF7FFFFF]))
      (align_once ?env (NdArray ?a) (init 0))) = Inr (0.9, 0.9, Some ''Great pitch'')"
    by code_simp
  from non_finite_chunk_sanitized [OF nf, of ?env example_settings "init 0"] clean r nf
  show ?thesis by simp
qed

text \<open>
  The claim as stated fails at positive infinity (\<^verbatim>\<open>0x7F800000\<close>), which becomes the
  largest finite \<^verbatim>\<open>float32\<close> (\<^verbatim>\<open>0x7F7FFFFF\<close>), not zero.
\<close>

theorem infinity_not_zeroed:
  "\<not> all_isfinite (Float32Array [0x7F800000])
   \<and> sanitize (Float32Array [0x7F800000]) = Float32Array [0x7F7FFFFF]
   \<and> sanitize (Float32Array [0x7F800000]) \<noteq> Float32Array [0]"
  by code_simp



text \<open>
  Claim C6. After any session on a new object the chunk counter is the number of calls
  of \<^verbatim>\<open>process_and_score\<close> that returned. When it is zero, \<^verbatim>\<open>final_score\<close> and
  \<^verbatim>\<open>get_average_scores\<close> both raise \<^verbatim>\<open>ZeroDivisionError\<close>; when it is above zero, both
  return.
\<close>

theorem queries_before_first_chunk:
  "chunk_count (snd (run env cfg chunks (init k))) =
     length (filter (\<lambda>r. \<not> isl r) (fst (run env cfg chunks (init k))))
   \<and> (chunk_count (snd (run env cfg chunks (init k))) = 0 \<longrightarrow>
        fst (final_score cfg (snd (run env cfg chunks (init k)))) = Inl ZeroDivisionError
        \<and> fst (get_average_scores (snd (run env cfg chunks (init k)))) = Inl ZeroDivisionError)
   \<and> (0 < chunk_count (snd (run env cfg chunks (init k))) \<longrightarrow>
        \<not> isl (fst (final_score cfg (snd (run env cfg chunks (init k)))))
        \<and> \<not> isl (fst (get_average_scores (snd (run env cfg chunks (init k))))))"
proof -
  let ?st = "snd (run env cfg chunks (init k))"
  have "cumulative_scores ?st \<noteq> []"
    using run_init_keys [of env cfg chunks k] by (auto simp: score_names_def)
  then have "chunk_count ?st = 0 \<Longrightarrow> fst (get_average_scores ?st) = Inl ZeroDivisionError"
    by (simp add: get_average_scores_def average_items_zero)
  moreover have "chunk_count ?st = 0 \<Longrightarrow> fst (final_score cfg ?st) = Inl ZeroDivisionError"
    by (simp add: final_score_def py_div_def)
  moreover have "0 < chunk_count ?st \<Longrightarrow> \<not> isl (fst (final_score cfg ?st))"
    by (simp add: final_score_def py_div_def)
  moreover have "0 < chunk_count ?st \<Longrightarrow> \<not> isl (fst (get_average_scores ?st))"
    by (simp add: get_average_scores_def average_items_ok)
  moreover have "chunk_count ?st = length (filter (\<lambda>r. \<not> isl r) (fst (run env cfg chunks (init k))))"
    by (simp add: run_count init_simps)
  ultimately show ?thesis by blast
qed

theorem queries_before_first_chunk_witness:
  "fst (final_score example_settings (init (0::nat))) = Inl ZeroDivisionError
   \<and> fst (get_average_scores (init (0::nat))) = Inl ZeroDivisionError
   \<and> \<not> isl (fst (final_score example_settings
         (snd (run (stub_collaborators example_segment [(''pitch_score'', 0.9)]) example_settings
                 [RawBytes [0x01, 0x00]] (init 0)))))
   \<and> \<not> isl (fst (get_average_scores
         (snd (run (stub_collaborators example_segment [(''pitch_score'', 0.9)]) example_settings
                 [RawBytes [0x01, 0x00]] (init 0)))))"
proof -
  have one: "chunk_count (snd (run (stub_collaborators example_segment [(''pitch_score'', 0.9)])
      example_settings [RawBytes [0x01, 0x00]] (init 0))) = 1"
    by code_simp
  have zero: "chunk_count (init (0::nat)) = 0"
    by (simp add: init_simps)
  show ?thesis
    using queries_before_first_chunk
        [of "stub_collaborators example_segment [(''pitch_score'', 0.9)]" example_settings "[]" 0]
      queries_before_first_chunk
        [of "stub_collaborators example_segment [(''pitch_score'', 0.9)]" example_settings
            "[RawBytes [0x01, 0x00]]" 0]
    by (simp only: one) (simp add: zero)
qed




text \<open>
  Claim C8. With a chunk counter \<open>n > 0\<close>, \<^verbatim>\<open>get_average_scores\<close> returns, for every entry
  of \<^verbatim>\<open>cumulative_scores\<close> and in the same order, the name with its sum divided by
  \<open>n\<close>; no weight takes part.
\<close>

theorem get_average_scores_per_name:
  "0 < chunk_count st \<Longrightarrow>
   fst (get_average_scores st) =
     Inr (map (\<lambda>(name, total). (name, total / real (chunk_count st))) (cumulative_scores st))"
  by (simp add: get_average_scores_def average_items_ok)

theorem get_average_scores_per_name_witness:
  "fst (get_average_scores
         (snd (run (stub_collaborators example_segment [(''pitch_score'', 0.9), (''rhythm_score'', 0.5)])
                 example_settings [RawBytes [0x01, 0x00], RawBytes [0x02, 0x00]] (init 0)))) =
     Inr [(''linguistic_accuracy_score'', 0), (''linguistic_similarity_score'', 0),
          (''amplitude_score'', 0), (''pitch_score'', 0.9), (''rhythm_score'', 0.5)]"
proof -
  let ?st = "snd (run (stub_collaborators example_segment [(''pitch_score'', 0.9), (''rhythm_score'', 0.5)])
                 example_settings [RawBytes [0x01, 0x00], RawBytes [0x02, 0x00]] (init 0))"
  have count: "chunk_count ?st = 2" by code_simp
  have sums: "cumulative_scores ?st =
      [(''linguistic_accuracy_score'', 0), (''linguistic_similarity_score'', 0),
       (''amplitude_score'', 0), (''pitch_score'', 1.8), (''rhythm_score'', 1)]"
    by code_simp
  from count have "0 < chunk_count ?st" by simp
  then have "fst (get_average_scores ?st) =
      Inr (map (\<lambda>(name, total). (name, total / real (chunk_count ?st))) (cumulative_scores ?st))"
    by (rule get_average_scores_per_name)
  then show ?thesis
    unfolding count sums by simp
qed

text \<open>
  Claim C9. With a chunk counter above zero, \<^verbatim>\<open>final_score\<close> and \<^verbatim>\<open>get_average_scores\<close>
  leave the object as it was: the sums, the counter, the alignment flag and the state
  of the segment provider.
\<close>

theorem queries_read_only:
  "0 < chunk_count st \<Longrightarrow>
   snd (final_score cfg st) = st \<and> snd (get_average_scores st) = st"
  by (simp add: final_score_def get_average_scores_def split: sum.splits)

theorem queries_read_only_witness:
  "snd (final_score example_settings
         (snd (run (stub_collaborators example_segment [(''pitch_score'', 0.9)]) example_settings
                 [RawBytes [0x01, 0x00]] (init 0)))) =
     snd (run (stub_collaborators example_segment [(''pitch_score'', 0.9)]) example_settings
            [RawBytes [0x01, 0x00]] (init 0))
   \<and> snd (get_average_scores
         (snd (run (stub_collaborators example_segment [(''pitch_score'', 0.9)]) example_settings
                 [RawBytes [0x01, 0x00]] (init 0)))) =
     snd (run (stub_collaborators example_segment [(''pitch_score'', 0.9)]) example_settings
            [RawBytes [0x01, 0x00]] (init 0))"
proof -
  let ?st = "snd (run (stub_collaborators example_segment [(''pitch_score'', 0.9)]) example_settings
                 [RawBytes [0x01, 0x00]] (init 0))"
  have "chunk_count ?st = 1" by code_simp
  then have "0 < chunk_count ?st" by simp
  then show ?thesis by (rule queries_read_only)
qed

text \<open>
  Claim C10. After any session on a new object the keys of \<^verbatim>\<open>cumulative_scores\<close> are
  the five names, in the order of \<^verbatim>\<open>_reset_scores\<close>. A call then made, on a chunk and
  segments that the conversion accepts, whose ScoreVector \<open>S\<close> has a name outside the
  five, raises \<^verbatim>\<open>KeyError\<close> for the first such name of \<open>S\<close>: the scorer has been
  called (the last recorded call is \<^verbatim>\<open>get_lyrics\<close>), the chunk counter is unchanged,
  and the keys are still the five names.
\<close>

theorem cumulative_keys_fixed:
  "map fst (cumulative_scores (snd (run env cfg chunks (init k)))) = score_names
   \<and> (acceptable_chunk c \<and> segments_convertible env
        \<and> (\<forall>x y l r. process_audio_chunk env x y l r = S)
        \<and> \<not> fst ` set S \<subseteq> set score_names
      \<longrightarrow> fst (process_and_score env cfg c (snd (run env cfg chunks (init k)))) =
            Inl (KeyError (hd (filter (\<lambda>n. n \<notin> set score_names) (map fst S))))
        \<and> last (calls (snd (process_and_score env cfg c (snd (run env cfg chunks (init k)))))) = GetLyrics
        \<and> chunk_count (snd (process_and_score env cfg c (snd (run env cfg chunks (init k)))))
            = chunk_count (snd (run env cfg chunks (init k)))
        \<and> map fst (cumulative_scores (snd (process_and_score env cfg c (snd (run env cfg chunks (init k))))))
            = score_names)"
proof (intro conjI impI)
  let ?st = "snd (run env cfg chunks (init k))"
  show keys: "map fst (cumulative_scores ?st) = score_names"
    by (rule run_init_keys)
  then have set_keys: "fst ` set (cumulative_scores ?st) = set score_names"
    by (metis list.set_map)
  assume h: "acceptable_chunk c \<and> segments_convertible env
        \<and> (\<forall>x y l r. process_audio_chunk env x y l r = S)
        \<and> \<not> fst ` set S \<subseteq> set score_names"
  then have "fst (accumulate S (cumulative_scores ?st)) =
      Some (KeyError (hd (filter (\<lambda>n. n \<notin> set score_names) (map fst S))))"
    using accumulate_foreign [of S "cumulative_scores ?st"] set_keys by simp
  then show r: "fst (process_and_score env cfg c ?st) =
      Inl (KeyError (hd (filter (\<lambda>n. n \<notin> set score_names) (map fst S))))"
    using process_and_score_returns(1) [of c env S cfg ?st] h by simp
  show "last (calls (snd (process_and_score env cfg c ?st))) = GetLyrics"
    using process_and_score_returns(3) [of c env S cfg ?st] h by simp
  show "chunk_count (snd (process_and_score env cfg c ?st)) = chunk_count ?st"
    using process_and_score_count [of env cfg c ?st] r by simp
  show "map fst (cumulative_scores (snd (process_and_score env cfg c ?st))) = score_names"
    using keys by (simp add: process_and_score_keys)
qed

theorem cumulative_keys_fixed_witness:
  "map fst (cumulative_scores
      (snd (run (stub_collaborators example_segment [(''pitch_score'', 0.9), (''tempo_score'', 1)])
              example_settings [RawBytes [0x01, 0x00]] (init 0)))) = score_names
   \<and> fst (process_and_score
             (stub_collaborators example_segment [(''pitch_score'', 0.9), (''tempo_score'', 1)])
             example_settings (NdArray (Float32Array [0x3F000000]))
             (snd (run (stub_collaborators example_segment [(''pitch_score'', 0.9), (''tempo_score'', 1)])
                     example_settings [RawBytes [0x01, 0x00]] (init 0)))) =
       Inl (KeyError ''tempo_score'')"
proof -
  have foreign: "\<not> fst ` set [(''pitch_score'', 0.9 :: real), (''tempo_score'', 1)] \<subseteq> set score_names"
    by (simp add: score_names_def)
  have name: "hd (filter (\<lambda>n. n \<notin> set score_names)
      (map fst [(''pitch_score'', 0.9 :: real), (''tempo_score'', 1)])) = ''tempo_score''"
    by (simp add: score_names_def)
  have chunk: "acceptable_chunk (NdArray (Float32Array [0x3F000000]))" by simp
  show ?thesis
    using cumulative_keys_fixed
      [of "stub_collaborators example_segment [(''pitch_score'', 0.9), (''tempo_score'', 1)]"
          example_settings "[RawBytes [0x01, 0x00]]" 0 "NdArray (Float32Array [0x3F000000])"
          "[(''pitch_score'', 0.9), (''tempo_score'', 1)]"]
      foreign chunk stub_segments_convertible stub_scores
    by (simp only: name) blast
qed

end
